theory Spec2Isabelle
  imports Main
begin

section \<open>Data model\<close>

subsection \<open>Errors\<close>

text \<open>
  Go errors are values.  \<open>ErrNotificationsNotConfigured\<close> is the sentinel of package
  \<open>execute\<close>; \<open>Error\<close> stands for \<open>errors.New\<close> and for the errors that the Slack
  client hands back; \<open>Wrapped p e\<close> stands for \<open>fmt.Errorf(p + ": %w", e)\<close>.
\<close>

datatype error =
    ErrNotificationsNotConfigured
  | Error string
  | Wrapped string error

subsection \<open>Channel registry of the bot\<close>

text \<open>
  \<open>config.BotBindings\<close> and \<open>channelConfigByName\<close> are declared in other
  packages of the repository; the records carry the fields that the bot reads: \<open>Bindings.Sources\<close>,
  \<open>Bindings.Executors\<close>, \<open>Name\<close>, \<open>alias\<close> (written \<open>alias'\<close>, as \<open>alias\<close> is reserved) and \<open>notify\<close>.
\<close>

record BotBindings =
  Sources :: "string list"
  Executors :: "string list"

record channelConfigByName =
  Name :: string
  Bindings :: BotBindings
  alias' :: string
  notify :: bool

text \<open>
  The part of the \<open>SocketSlack\<close> bot that is plain data.  The two mutexes guard
  \<open>channels\<close> against concurrent access; the model is sequential, so they do not appear.
\<close>

record SocketSlack =
  botID :: string
  channels :: "string \<rightharpoonup> channelConfigByName"
  commGroupName :: string

section \<open>Operations\<close>

subsection \<open>Channel registry\<close>

definition getChannels :: "SocketSlack \<Rightarrow> (string \<rightharpoonup> channelConfigByName)" where
  "getChannels b = channels b"

definition setChannels :: "SocketSlack \<Rightarrow> (string \<rightharpoonup> channelConfigByName) \<Rightarrow> SocketSlack" where
  "setChannels b chs = b\<lparr>channels := chs\<rparr>"

text \<open>
  \<open>NotificationsEnabled\<close> only reads the bot (a Go map lookup with the comma-ok form
  inserts nothing), so it is a function of the bot into \<open>bool\<close>.
\<close>

definition NotificationsEnabled :: "SocketSlack \<Rightarrow> string \<Rightarrow> bool" where
  "NotificationsEnabled b channelName =
     (case getChannels b channelName of
        None \<Rightarrow> False
      | Some channel \<Rightarrow> notify channel)"

text \<open>
  \<open>SetNotificationsEnabled\<close> mutates the bot and returns an error value; the model
  returns the bot after the call together with the error (\<open>None\<close> for \<open>nil\<close>).
\<close>

definition SetNotificationsEnabled ::
  "SocketSlack \<Rightarrow> string \<Rightarrow> bool \<Rightarrow> SocketSlack \<times> error option" where
  "SetNotificationsEnabled b channelName enabled =
     (let chs = getChannels b in
      case chs channelName of
        None \<Rightarrow> (b, Some ErrNotificationsNotConfigured)
      | Some channel \<Rightarrow>
          (let channel' = channel\<lparr>notify := enabled\<rparr>;
               chs' = chs(channelName \<mapsto> channel')
           in (setChannels b chs', None)))"

subsection \<open>Notification router\<close>

text \<open>
  Modelled from the spec: \<open>Identifier\<close> is a method of the embedded
  \<open>config.ChannelBindingsByName\<close>, which is declared in another package of the repository; the spec gives a
  channel configuration the identity "platform-specific id or name", and for a channel
  configured by name that is its \<open>Name\<close>.
\<close>

definition Identifier :: "channelConfigByName \<Rightarrow> string" where
  "Identifier cfg = Name cfg"

text \<open>
  Modelled from the spec: \<open>sliceutil.Intersect\<close> is defined in another package of the repository;
  the spec describes it as "non-empty set intersection, order-independent".
\<close>

definition Intersect :: "string list \<Rightarrow> string list \<Rightarrow> bool" where
  "Intersect this that = (set this \<inter> set that \<noteq> {})"

text \<open>
  The body of the \<open>range\<close> loop of \<open>getChannelsToNotify\<close>, over the channel
  configurations in the order in which the loop meets them, with \<open>out\<close> as accumulator.
\<close>

fun getChannelsToNotify_loop ::
  "string list \<Rightarrow> channelConfigByName list \<Rightarrow> string list \<Rightarrow> string list" where
  "getChannelsToNotify_loop sourceBindings [] out = out"
| "getChannelsToNotify_loop sourceBindings (cfg # rest) out =
     (if \<not> notify cfg then getChannelsToNotify_loop sourceBindings rest out
      else if \<not> Intersect sourceBindings (BotBindings.Sources (Bindings cfg))
        then getChannelsToNotify_loop sourceBindings rest out
      else getChannelsToNotify_loop sourceBindings rest (out @ [Identifier cfg]))"

text \<open>
  Go leaves the iteration order of a map open.  \<open>order\<close> is the sequence of keys in which
  one run of the loop visits the map; \<open>snapshot\<close> lists the values in that order.
\<close>

fun snapshot :: "SocketSlack \<Rightarrow> string list \<Rightarrow> channelConfigByName list" where
  "snapshot b [] = []"
| "snapshot b (k # ks) =
     (case getChannels b k of
        None \<Rightarrow> snapshot b ks
      | Some cfg \<Rightarrow> cfg # snapshot b ks)"

definition getChannelsToNotify :: "SocketSlack \<Rightarrow> string list \<Rightarrow> string list \<Rightarrow> string list" where
  "getChannelsToNotify b order sourceBindings =
     getChannelsToNotify_loop sourceBindings (snapshot b order) []"

text \<open>
  A selection of the fields of \<open>events.Event\<close>; routing reads \<open>Channel\<close> only.
\<close>

record Event =
  Code :: string
  Title :: string
  Namespace :: string
  Messages :: "string list"
  Reason :: string
  Cluster :: string
  Channel :: string
  Resource :: string
  Recommendations :: "string list"
  Warnings :: "string list"

definition getChannelsToNotifyForEvent ::
  "SocketSlack \<Rightarrow> string list \<Rightarrow> Event \<Rightarrow> string list \<Rightarrow> string list" where
  "getChannelsToNotifyForEvent b order event sourceBindings =
     (if Event.Channel event \<noteq> [] then [Event.Channel event]
      else getChannelsToNotify b order sourceBindings)"

text \<open>
  The reference definition of the router in the words of the spec: an explicit channel wins;
  otherwise a channel is a target iff its notify flag is set and its source bindings meet
  those of the event.
\<close>

definition Targets_spec :: "Event \<Rightarrow> channelConfigByName list \<Rightarrow> string list \<Rightarrow> string list" where
  "Targets_spec event allChannels eventSources =
     (if Event.Channel event \<noteq> [] then [Event.Channel event]
      else map Identifier
             (filter (\<lambda>c. notify c \<and> set (BotBindings.Sources (Bindings c)) \<inter> set eventSources \<noteq> {})
                allChannels))"

text \<open>
  The registry is keyed by channel identifier (as \<open>slackChannelsConfigFrom\<close> builds it):
  under each of the given keys stands a configuration with that identifier.
\<close>

definition keyedByIdentifier :: "SocketSlack \<Rightarrow> string list \<Rightarrow> bool" where
  "keyedByIdentifier b keys =
     (\<forall>k \<in> set keys. case channels b k of None \<Rightarrow> True | Some cfg \<Rightarrow> Identifier cfg = k)"

subsection \<open>Interactive action resolver\<close>

datatype Origin =
    TypedOrigin
  | ButtonClickOrigin
  | MultiSelectValueChangeOrigin
  | SelectValueChangeOrigin
  | PlainTextInputOrigin
  | AutomationOrigin
  | UnknownOrigin

text \<open>
  \<open>slack.BlockAction\<close> and \<open>slack.OptionBlockObject\<close> belong to the Slack client library;
  the records carry the fields that the resolver reads.  \<open>Type\<close> is a string in the library
  (\<open>slack.ActionType\<close>), and the resolver switches on its literal value.
\<close>

record OptionBlockObject =
  Value :: string

record BlockAction =
  ActionID :: string
  BlockID :: string
  Type :: string
  Value :: string
  SelectedOption :: OptionBlockObject
  SelectedOptions :: "OptionBlockObject list"

text \<open>\<open>strings.Join\<close>.\<close>

fun Join :: "string list \<Rightarrow> string \<Rightarrow> string" where
  "Join [] sep = []"
| "Join [x] sep = x"
| "Join (x # y # zs) sep = x @ sep @ Join (y # zs) sep"

text \<open>The loop that collects the values of the selected options.\<close>

fun selectedValues :: "OptionBlockObject list \<Rightarrow> string list \<Rightarrow> string list" where
  "selectedValues [] items = items"
| "selectedValues (item # rest) items = selectedValues rest (items @ [OptionBlockObject.Value item])"

text \<open>
  \<open>Quote\<close> stands for the verb \<open>%q\<close> of \<open>fmt.Sprintf\<close> (that is \<open>strconv.Quote\<close>) and
  \<open>TrimSpace\<close> for \<open>strings.TrimSpace\<close>; both belong to the Go standard library and are
  parameters of the model.  The verbs \<open>%s %s\<close> put one space between their arguments.
\<close>

definition resolveBlockActionCommand ::
  "(string \<Rightarrow> string) \<Rightarrow> (string \<Rightarrow> string) \<Rightarrow> BlockAction \<Rightarrow> string \<times> Origin" where
  "resolveBlockActionCommand Quote TrimSpace act =
     (let cmd = BlockAction.Value act;
          cmdOrigin = UnknownOrigin
      in if BlockAction.Type act = ''multi_static_select'' then
           (let items = selectedValues (SelectedOptions act) []
            in (ActionID act @ '' '' @ Join items '','', MultiSelectValueChangeOrigin))
         else if BlockAction.Type act = ''static_select'' then
           (ActionID act @ '' '' @ OptionBlockObject.Value (SelectedOption act),
            SelectValueChangeOrigin)
         else if BlockAction.Type act = ''button'' then (cmd, ButtonClickOrigin)
         else if BlockAction.Type act = ''plain_text_input'' then
           (BlockAction.BlockID act @ Quote (TrimSpace (BlockAction.Value act)),
            PlainTextInputOrigin)
         else (cmd, cmdOrigin))"

subsection \<open>Delivery\<close>

text \<open>
  \<open>socketSlackMessage\<close> without its \<open>State\<close> pointer, which \<open>send\<close> does not read.
\<close>

record socketSlackMessage =
  Text :: string
  Channel :: string
  ThreadTimeStamp :: string
  User :: string
  TriggerID :: string
  CommandOrigin :: Origin
  ResponseURL :: string
  BlockID :: string

text \<open>
  Modelled from the spec: \<open>interactive.Message\<close> is declared in another package of the
  repository.  The spec speaks of a message kind (popup or not), of plain-text-input elements, of other interactive
  elements, and of the flags "visible only to the requesting user" and "replace original";
  \<open>send\<close> reads the fields \<open>Type\<close>, \<open>PlaintextInputs\<close>, \<open>ReplaceOriginal\<close> and
  \<open>OnlyVisibleForYou\<close>.  \<open>Base\<close> and \<open>Sections\<close> stand for the remaining content, and
  \<open>Default\<close> is the kind of a message whose \<open>Type\<close> was not set.
\<close>

datatype MessageType = Default | Popup

record Message =
  Type :: MessageType
  Base :: string
  Sections :: "string list"
  PlaintextInputs :: "string list"
  OnlyVisibleForYou :: bool
  ReplaceOriginal :: bool

text \<open>The value of a \<open>Message\<close> composite literal before any field is given.\<close>

definition zeroMessage :: Message where
  "zeroMessage = \<lparr>Type = Default, Base = [], Sections = [], PlaintextInputs = [],
                   OnlyVisibleForYou = False, ReplaceOriginal = False\<rparr>"

text \<open>
  \<open>slack.File\<close> with its public shares.  \<open>Shares.Public\<close> is a Go map from channel to a
  list of shares; the list of pairs gives its entries in the order in which one run of the
  \<open>range\<close> loop visits them.
\<close>

record ShareFileInfo =
  Ts :: string

record Share =
  Public :: "(string \<times> ShareFileInfo list) list"

record File =
  ID :: string
  Shares :: Share

text \<open>
  The message options are built by the renderer and by the Slack library; they are kept as
  terms.
\<close>

datatype MsgOption =
    RenderInteractiveMessage Message
  | MsgOptionTS string
  | MsgOptionReplaceOriginal string

record ModalViewRequest =
  RenderModal_of :: Message
  PrivateMetadata :: string

definition RenderModal :: "Message \<Rightarrow> ModalViewRequest" where
  "RenderModal resp = \<lparr>RenderModal_of = resp, PrivateMetadata = []\<rparr>"

text \<open>The loop of \<open>getThreadOptionIfNeeded\<close> over the public shares.\<close>

fun publicSharesLoop :: "(string \<times> ShareFileInfo list) list \<Rightarrow> MsgOption option" where
  "publicSharesLoop [] = None"
| "publicSharesLoop ((channel, share) # rest) =
     (if length share \<ge> 1 \<and> Ts (share ! 0) \<noteq> [] then Some (MsgOptionTS (Ts (share ! 0)))
      else publicSharesLoop rest)"

definition getThreadOptionIfNeeded :: "socketSlackMessage \<Rightarrow> File option \<Rightarrow> MsgOption option" where
  "getThreadOptionIfNeeded event file =
     (if ThreadTimeStamp event \<noteq> [] then Some (MsgOptionTS (ThreadTimeStamp event))
      else case file of
             None \<Rightarrow> None
           | Some f \<Rightarrow> publicSharesLoop (Public (Shares f)))"

text \<open>
  The Slack client is the outside world of \<open>send\<close>.  A \<open>Client\<close> says what each call
  returns; \<open>send\<close> returns the calls it made, in order, with its error result.
\<close>

datatype Call =
    uploadFileToSlackCall string Message string
  | OpenViewCall string ModalViewRequest
  | PostEphemeralCall string string "MsgOption list"
  | PostMessageCall string "MsgOption list"

record Client =
  uploadFileToSlack :: "string \<Rightarrow> Message \<Rightarrow> string \<Rightarrow> error + File"
  OpenView :: "string \<Rightarrow> ModalViewRequest \<Rightarrow> error option"
  PostEphemeral :: "string \<Rightarrow> string \<Rightarrow> MsgOption list \<Rightarrow> error option"
  PostMessage :: "string \<Rightarrow> MsgOption list \<Rightarrow> error option"

text \<open>The part of \<open>send\<close> after the upload: modal, ephemeral post or channel post.\<close>

definition send_deliver ::
  "Client \<Rightarrow> socketSlackMessage \<Rightarrow> Message \<Rightarrow> File option \<Rightarrow> Call list \<times> error option" where
  "send_deliver client event resp file =
     (if Message.Type resp = Popup \<and> TriggerID event \<noteq> [] then
        (let modalView = (RenderModal resp)\<lparr>PrivateMetadata := socketSlackMessage.Channel event\<rparr>
         in case OpenView client (TriggerID event) modalView of
              Some err \<Rightarrow> ([OpenViewCall (TriggerID event) modalView],
                            Some (Wrapped ''while opening modal'' err))
            | None \<Rightarrow> ([OpenViewCall (TriggerID event) modalView], None))
      else
        (let options = [RenderInteractiveMessage resp];
             options = (case getThreadOptionIfNeeded event file of
                          Some ts \<Rightarrow> options @ [ts]
                        | None \<Rightarrow> options);
             options = (if ReplaceOriginal resp \<and> ResponseURL event \<noteq> []
                        then options @ [MsgOptionReplaceOriginal (ResponseURL event)]
                        else options)
         in if OnlyVisibleForYou resp then
              (case PostEphemeral client (socketSlackMessage.Channel event) (User event) options of
                 Some err \<Rightarrow>
                   ([PostEphemeralCall (socketSlackMessage.Channel event) (User event) options],
                    Some (Wrapped ''while posting Slack message visible only to user'' err))
               | None \<Rightarrow>
                   ([PostEphemeralCall (socketSlackMessage.Channel event) (User event) options],
                    None))
            else
              (case PostMessage client (socketSlackMessage.Channel event) options of
                 Some err \<Rightarrow>
                   ([PostMessageCall (socketSlackMessage.Channel event) options],
                    Some (Wrapped ''while posting Slack message'' err))
               | None \<Rightarrow> ([PostMessageCall (socketSlackMessage.Channel event) options], None))))"

text \<open>
  \<open>RenderMessage\<close> stands for \<open>interactive.RenderMessage\<close> applied to the formatter of the
  bot, and \<open>slackMaxMessageSize\<close> for the constant of that name; both are defined elsewhere in the
  repository and are parameters of the model.  \<open>len\<close> of a Go string counts bytes, as \<open>length\<close> does
  on \<open>string\<close>.
\<close>

definition send ::
  "(Message \<Rightarrow> string) \<Rightarrow> nat \<Rightarrow> Client \<Rightarrow> socketSlackMessage \<Rightarrow> Message
     \<Rightarrow> Call list \<times> error option" where
  "send RenderMessage slackMaxMessageSize client event resp =
     (let markdown = RenderMessage resp
      in if length markdown = 0 then
           ([], Some (Error ''while reading Slack response: empty response''))
         else if length markdown \<ge> slackMaxMessageSize then
           (case uploadFileToSlack client (socketSlackMessage.Channel event) resp
                   (ThreadTimeStamp event) of
              Inl err \<Rightarrow>
                ([uploadFileToSlackCall (socketSlackMessage.Channel event) resp
                    (ThreadTimeStamp event)], Some err)
            | Inr file \<Rightarrow>
                (let resp' = zeroMessage\<lparr>PlaintextInputs := PlaintextInputs resp\<rparr>;
                     rest = send_deliver client event resp' (Some file)
                 in (uploadFileToSlackCall (socketSlackMessage.Channel event) resp
                       (ThreadTimeStamp event) # fst rest, snd rest)))
         else send_deliver client event resp None)"

text \<open>
  What a call delivers: the message handed to the renderer for a modal or a post, nothing for
  an upload.
\<close>

fun deliveredMessage :: "Call \<Rightarrow> Message option" where
  "deliveredMessage (uploadFileToSlackCall channel resp ts) = None"
| "deliveredMessage (OpenViewCall trigger view) = Some (RenderModal_of view)"
| "deliveredMessage (PostEphemeralCall channel user options) =
     (case options of RenderInteractiveMessage m # _ \<Rightarrow> Some m | _ \<Rightarrow> None)"
| "deliveredMessage (PostMessageCall channel options) =
     (case options of RenderInteractiveMessage m # _ \<Rightarrow> Some m | _ \<Rightarrow> None)"

fun isUpload :: "Call \<Rightarrow> bool" where
  "isUpload (uploadFileToSlackCall channel resp ts) = True"
| "isUpload _ = False"

text \<open>
  The thread target in the words of the spec: the thread of the originating message if it
  has one; else, for content delivered as a file, the first public share of the file that
  has a non-empty timestamp; else none.
\<close>

definition publicShareTimestamps :: "File \<Rightarrow> string list" where
  "publicShareTimestamps f =
     filter (\<lambda>ts. ts \<noteq> []) (map Ts (concat (map snd (Public (Shares f)))))"

definition threadTarget_spec :: "socketSlackMessage \<Rightarrow> File option \<Rightarrow> MsgOption option" where
  "threadTarget_spec event file =
     (if ThreadTimeStamp event \<noteq> [] then Some (MsgOptionTS (ThreadTimeStamp event))
      else case file of
             None \<Rightarrow> None
           | Some f \<Rightarrow>
               (case publicShareTimestamps f of
                  [] \<Rightarrow> None
                | ts # _ \<Rightarrow> Some (MsgOptionTS ts)))"

text \<open>
  The timestamps that the loop looks at: of each channel with at least one share, the
  timestamp of the first share.
\<close>

definition firstShareTimestamps :: "File \<Rightarrow> string list" where
  "firstShareTimestamps f =
     map (\<lambda>share. Ts (share ! 0)) (filter (\<lambda>share. length share \<ge> 1) (map snd (Public (Shares f))))"


subsection \<open>Configuration validator\<close>

definition nsIncludeTag :: string where
  "nsIncludeTag = ''ns-include-regex''"

definition invalidBindingTag :: string where
  "invalidBindingTag = ''invalid_binding''"

definition appTokenPrefix :: string where
  "appTokenPrefix = ''xapp-''"

definition botTokenPrefix :: string where
  "botTokenPrefix = ''xoxb-''"

definition warnsOnlyTags :: "string set" where
  "warnsOnlyTags = {nsIncludeTag}"

text \<open>
  \<open>Criticals\<close> and \<open>Warnings\<close> are multi-errors; the model keeps the list of their messages,
  and \<open>[]\<close> stands for a multi-error without entries as well as for \<open>nil\<close>.
\<close>

record ValidateResult =
  Criticals :: "string list"
  Warnings :: "string list"

text \<open>
  What a \<open>validator.FieldError\<close> answers to \<open>Tag\<close>, \<open>StructNamespace\<close>, \<open>Field\<close> and
  \<open>Param\<close>.  \<open>ReportError\<close> belongs to the validator library: a struct-level validator
  runs at a place of the validated value whose namespace is \<open>ns\<close>, and the error reported
  for a field gets the namespace \<open>ns\<close> followed by the struct field name (the field name,
  if no struct field name is given).  The first argument of the library function, the field
  value, does not enter the messages and is left out.
\<close>

record FieldError =
  Tag :: string
  StructNamespace :: string
  Field :: string
  Param :: string

definition ReportError :: "string \<Rightarrow> string \<Rightarrow> string \<Rightarrow> string \<Rightarrow> string \<Rightarrow> FieldError" where
  "ReportError ns fieldName structFieldName tag param =
     \<lparr>Tag = tag,
      StructNamespace = ns @ (if structFieldName = [] then fieldName else structFieldName),
      Field = fieldName,
      Param = param\<rparr>"

text \<open>
  The configuration types are declared elsewhere in the repository; the records below carry the
  fields that the validators read.  The values of the \<open>sources\<close> and \<open>executors\<close> maps
  are not read, only their keys, so their types are left open.
\<close>

record ('s, 'e) Config =
  Sources :: "string \<rightharpoonup> 's"
  Executors :: "string \<rightharpoonup> 'e"

record ActionBindings =
  Sources :: "string list"
  Executors :: "string list"

record SinkBindings =
  Sources :: "string list"

record Namespaces =
  Include :: "string list"

record config_Slack =
  Enabled :: bool
  Token :: string

record config_SocketSlack =
  Enabled :: bool
  BotToken :: string
  AppToken :: string

text \<open>
  \<open>sl.Top()\<close> is the value handed to \<open>ValidateStruct\<close>; the binding validators go on only
  if it is a \<open>Config\<close>.
\<close>

datatype ('s, 'e) Top = TopConfig "('s, 'e) Config" | TopOther

text \<open>\<open>strings.HasPrefix\<close>.\<close>

definition HasPrefix :: "string \<Rightarrow> string \<Rightarrow> bool" where
  "HasPrefix s prefix = (length s \<ge> length prefix \<and> take (length prefix) s = prefix)"

definition slackStructTokenValidator :: "string \<Rightarrow> config_Slack \<Rightarrow> FieldError list" where
  "slackStructTokenValidator ns slack =
     (if \<not> config_Slack.Enabled slack then []
      else if Token slack = [] then [ReportError ns ''Token'' ''Token'' ''required'' []]
      else if \<not> HasPrefix (Token slack) botTokenPrefix then
        (let msg = ''must have the '' @ botTokenPrefix
               @ '' prefix. Learn more at https://botkube.io/docs/installation/slack/#install-botkube-slack-app-to-your-slack-workspace''
         in [ReportError ns ''Token'' ''Token'' ''invalid_slack_token'' msg])
      else [])"

definition socketSlackStructTokenValidator :: "string \<Rightarrow> config_SocketSlack \<Rightarrow> FieldError list" where
  "socketSlackStructTokenValidator ns slack =
     (if \<not> config_SocketSlack.Enabled slack then []
      else
        (if AppToken slack = [] then [ReportError ns ''AppToken'' ''AppToken'' ''required'' []]
         else [])
        @ (if BotToken slack = [] then [ReportError ns ''BotToken'' ''BotToken'' ''required'' []]
           else [])
        @ (if \<not> HasPrefix (BotToken slack) botTokenPrefix then
             (let msg = ''must have the '' @ botTokenPrefix
                    @ '' prefix. Learn more at https://botkube.io/docs/installation/socketslack/#obtain-bot-token''
              in [ReportError ns ''BotToken'' ''BotToken'' ''invalid_slack_token'' msg])
           else [])
        @ (if \<not> HasPrefix (AppToken slack) appTokenPrefix then
             (let msg = ''must have the '' @ appTokenPrefix
                    @ '' prefix. Learn more at https://botkube.io/docs/installation/socketslack/#generate-and-obtain-app-level-token''
              in [ReportError ns ''AppToken'' ''AppToken'' ''invalid_slack_token'' msg])
           else []))"

text \<open>
  \<open>AllNamespaceIndicator\<close> is a constant of the configuration package defined elsewhere in the
  repository; it is a parameter of the model.
\<close>

fun foundAllNamespaceIndicator :: "string \<Rightarrow> string list \<Rightarrow> bool" where
  "foundAllNamespaceIndicator AllNamespaceIndicator [] = False"
| "foundAllNamespaceIndicator AllNamespaceIndicator (name # rest) =
     (if name = AllNamespaceIndicator then True
      else foundAllNamespaceIndicator AllNamespaceIndicator rest)"

definition namespacesStructValidator :: "string \<Rightarrow> string \<Rightarrow> Namespaces \<Rightarrow> FieldError list" where
  "namespacesStructValidator AllNamespaceIndicator ns nsv =
     (if length (Include nsv) < 2 then []
      else if foundAllNamespaceIndicator AllNamespaceIndicator (Include nsv)
        then [ReportError ns ''Include'' ''Include'' nsIncludeTag []]
      else [])"

fun validateSourceBindings :: "string \<Rightarrow> (string \<rightharpoonup> 's) \<Rightarrow> string list \<Rightarrow> FieldError list" where
  "validateSourceBindings ns sources [] = []"
| "validateSourceBindings ns sources (source # rest) =
     (if sources source = None
      then [ReportError ns source source invalidBindingTag ''Config.Sources'']
      else [])
     @ validateSourceBindings ns sources rest"

fun validateExecutorBindings :: "string \<Rightarrow> (string \<rightharpoonup> 'e) \<Rightarrow> string list \<Rightarrow> FieldError list" where
  "validateExecutorBindings ns executors [] = []"
| "validateExecutorBindings ns executors (executor # rest) =
     (if executors executor = None
      then [ReportError ns executor executor invalidBindingTag ''Config.Executors'']
      else [])
     @ validateExecutorBindings ns executors rest"

definition botBindingsStructValidator ::
  "('s, 'e) Top \<Rightarrow> string \<Rightarrow> BotBindings \<Rightarrow> FieldError list" where
  "botBindingsStructValidator topVal ns bindings =
     (case topVal of
        TopOther \<Rightarrow> []
      | TopConfig conf \<Rightarrow>
          validateSourceBindings ns (Config.Sources conf) (BotBindings.Sources bindings)
          @ validateExecutorBindings ns (Config.Executors conf) (BotBindings.Executors bindings))"

definition actionBindingsStructValidator ::
  "('s, 'e) Top \<Rightarrow> string \<Rightarrow> ActionBindings \<Rightarrow> FieldError list" where
  "actionBindingsStructValidator topVal ns bindings =
     (case topVal of
        TopOther \<Rightarrow> []
      | TopConfig conf \<Rightarrow>
          validateSourceBindings ns (Config.Sources conf) (ActionBindings.Sources bindings)
          @ validateExecutorBindings ns (Config.Executors conf) (ActionBindings.Executors bindings))"

definition sinkBindingsStructValidator ::
  "('s, 'e) Top \<Rightarrow> string \<Rightarrow> SinkBindings \<Rightarrow> FieldError list" where
  "sinkBindingsStructValidator topVal ns bindings =
     (case topVal of
        TopOther \<Rightarrow> []
      | TopConfig conf \<Rightarrow>
          validateSourceBindings ns (Config.Sources conf) (SinkBindings.Sources bindings))"

text \<open>
  \<open>validate.Struct\<close> walks the value handed to it and runs the struct-level validator
  registered for the type of each struct it meets.  The walk belongs to the validator
  library and \<open>Config\<close> is declared elsewhere in the repository, so the walk is given by its
  outcome: the structs met that have a validator registered, in order, each with the
  namespace of its place.  Rules given by struct tags of the declarations are not part of the
  model.
\<close>

datatype Current =
    CurSlack config_Slack
  | CurSocketSlack config_SocketSlack
  | CurNamespaces Namespaces
  | CurBotBindings BotBindings
  | CurActionBindings ActionBindings
  | CurSinkBindings SinkBindings

fun structLevel :: "('s, 'e) Top \<Rightarrow> string \<Rightarrow> string \<times> Current \<Rightarrow> FieldError list" where
  "structLevel topVal AllNamespaceIndicator (ns, CurSlack slack) = slackStructTokenValidator ns slack"
| "structLevel topVal AllNamespaceIndicator (ns, CurSocketSlack slack) =
     socketSlackStructTokenValidator ns slack"
| "structLevel topVal AllNamespaceIndicator (ns, CurNamespaces nsv) =
     namespacesStructValidator AllNamespaceIndicator ns nsv"
| "structLevel topVal AllNamespaceIndicator (ns, CurBotBindings bindings) =
     botBindingsStructValidator topVal ns bindings"
| "structLevel topVal AllNamespaceIndicator (ns, CurActionBindings bindings) =
     actionBindingsStructValidator topVal ns bindings"
| "structLevel topVal AllNamespaceIndicator (ns, CurSinkBindings bindings) =
     sinkBindingsStructValidator topVal ns bindings"

definition validate_Struct ::
  "('s, 'e) Top \<Rightarrow> string \<Rightarrow> (string \<times> Current) list \<Rightarrow> FieldError list" where
  "validate_Struct topVal AllNamespaceIndicator visited =
     concat (map (structLevel topVal AllNamespaceIndicator) visited)"

text \<open>
  \<open>e.Translate(trans)\<close>: the three translations that the file registers, with \<open>{0}\<close> the
  field and \<open>{1}\<close> the parameter; every other tag is translated by the library's English
  translations, the parameter \<open>defaultTranslation\<close>.
\<close>

definition Translate :: "(FieldError \<Rightarrow> string) \<Rightarrow> FieldError \<Rightarrow> string" where
  "Translate defaultTranslation fe =
     (if Tag fe = nsIncludeTag then Field fe @ '' matches both all and exact namespaces''
      else if Tag fe = invalidBindingTag
        then [CHR 0x27] @ Field fe @ [CHR 0x27] @ '' binding not defined in '' @ Param fe
      else if Tag fe = ''invalid_slack_token'' then Field fe @ '' '' @ Param fe
      else defaultTranslation fe)"

definition message :: "(FieldError \<Rightarrow> string) \<Rightarrow> FieldError \<Rightarrow> string" where
  "message defaultTranslation e =
     ''Key: '' @ [CHR 0x27] @ StructNamespace e @ [CHR 0x27] @ '' ''
       @ Translate defaultTranslation e"

text \<open>The loop of \<open>ValidateStruct\<close> over the reported errors.\<close>

fun routeErrors ::
  "(FieldError \<Rightarrow> string) \<Rightarrow> FieldError list \<Rightarrow> ValidateResult \<Rightarrow> ValidateResult" where
  "routeErrors defaultTranslation [] result = result"
| "routeErrors defaultTranslation (e # errs) result =
     (let msg = message defaultTranslation e
      in if Tag e \<in> warnsOnlyTags
         then routeErrors defaultTranslation errs
                (result\<lparr>ValidateResult.Warnings := ValidateResult.Warnings result @ [msg]\<rparr>)
         else routeErrors defaultTranslation errs
                (result\<lparr>Criticals := Criticals result @ [msg]\<rparr>))"

text \<open>
  \<open>ValidateStruct\<close>.  The registrations are fixed and the value validated is a struct, so
  the error result of the Go function is \<open>nil\<close> and only the \<open>ValidateResult\<close> is returned.
\<close>

definition ValidateStruct ::
  "(FieldError \<Rightarrow> string) \<Rightarrow> string \<Rightarrow> ('s, 'e) Top \<Rightarrow> (string \<times> Current) list \<Rightarrow> ValidateResult" where
  "ValidateStruct defaultTranslation AllNamespaceIndicator topVal visited =
     (let errs = validate_Struct topVal AllNamespaceIndicator visited
      in if errs = [] then \<lparr>Criticals = [], Warnings = []\<rparr>
         else routeErrors defaultTranslation errs \<lparr>Criticals = [], Warnings = []\<rparr>)"

text \<open>The reported errors that the loop routes to the criticals and to the warnings.\<close>

definition criticalErrors :: "FieldError list \<Rightarrow> FieldError list" where
  "criticalErrors errs = filter (\<lambda>e. Tag e \<notin> warnsOnlyTags) errs"

definition warningErrors :: "FieldError list \<Rightarrow> FieldError list" where
  "warningErrors errs = filter (\<lambda>e. Tag e \<in> warnsOnlyTags) errs"

text \<open>
  The binding rule in the words of the spec: one error tagged \<open>invalid_binding\<close> for each
  bound source name that is no key of \<open>sources\<close>, and for each bound executor name that is
  no key of \<open>executors\<close>.
\<close>

definition invalidSources_spec :: "string \<Rightarrow> (string \<rightharpoonup> 's) \<Rightarrow> string list \<Rightarrow> FieldError list" where
  "invalidSources_spec ns sources bindings =
     map (\<lambda>name. ReportError ns name name invalidBindingTag ''Config.Sources'')
       (filter (\<lambda>name. sources name = None) bindings)"

definition invalidExecutors_spec :: "string \<Rightarrow> (string \<rightharpoonup> 'e) \<Rightarrow> string list \<Rightarrow> FieldError list" where
  "invalidExecutors_spec ns executors bindings =
     map (\<lambda>name. ReportError ns name name invalidBindingTag ''Config.Executors'')
       (filter (\<lambda>name. executors name = None) bindings)"

fun invalidBindings_spec :: "('s, 'e) Config \<Rightarrow> (string \<times> Current) list \<Rightarrow> FieldError list" where
  "invalidBindings_spec conf [] = []"
| "invalidBindings_spec conf ((ns, CurBotBindings b) # rest) =
     invalidSources_spec ns (Config.Sources conf) (BotBindings.Sources b)
     @ invalidExecutors_spec ns (Config.Executors conf) (BotBindings.Executors b)
     @ invalidBindings_spec conf rest"
| "invalidBindings_spec conf ((ns, CurActionBindings b) # rest) =
     invalidSources_spec ns (Config.Sources conf) (ActionBindings.Sources b)
     @ invalidExecutors_spec ns (Config.Executors conf) (ActionBindings.Executors b)
     @ invalidBindings_spec conf rest"
| "invalidBindings_spec conf ((ns, CurSinkBindings b) # rest) =
     invalidSources_spec ns (Config.Sources conf) (SinkBindings.Sources b)
     @ invalidBindings_spec conf rest"
| "invalidBindings_spec conf (_ # rest) = invalidBindings_spec conf rest"

text \<open>
  The namespace rule in the words of the spec: one warning tagged \<open>ns-include-regex\<close> for
  each include list of length at least 2 that contains the all-namespaces indicator.
\<close>

fun nsIncludeWarnings_spec :: "string \<Rightarrow> (string \<times> Current) list \<Rightarrow> FieldError list" where
  "nsIncludeWarnings_spec AllNamespaceIndicator [] = []"
| "nsIncludeWarnings_spec AllNamespaceIndicator ((ns, CurNamespaces nsv) # rest) =
     (if 2 \<le> length (Include nsv) \<and> AllNamespaceIndicator \<in> set (Include nsv)
      then [ReportError ns ''Include'' ''Include'' nsIncludeTag []] else [])
     @ nsIncludeWarnings_spec AllNamespaceIndicator rest"
| "nsIncludeWarnings_spec AllNamespaceIndicator (_ # rest) =
     nsIncludeWarnings_spec AllNamespaceIndicator rest"


section \<open>Sample values\<close>

definition chanA :: channelConfigByName where
  "chanA = \<lparr>Name = ''A'', Bindings = \<lparr>BotBindings.Sources = [''k8s-events''], BotBindings.Executors = [''kubectl'']\<rparr>,
            alias' = ''a'', notify = True\<rparr>"

definition chanB :: channelConfigByName where
  "chanB = \<lparr>Name = ''B'', Bindings = \<lparr>BotBindings.Sources = [''k8s-events''], BotBindings.Executors = []\<rparr>,
            alias' = ''b'', notify = False\<rparr>"

definition bot0 :: SocketSlack where
  "bot0 = \<lparr>botID = ''U1'', channels = [''A'' \<mapsto> chanA, ''B'' \<mapsto> chanB],
           commGroupName = ''default''\<rparr>"

definition event0 :: Event where
  "event0 = \<lparr>Code = [], Title = ''pod created'', Namespace = ''default'', Messages = [],
             Reason = [], Cluster = ''c1'', Event.Channel = [], Resource = ''v1/pods'',
             Recommendations = [], Event.Warnings = []\<rparr>"


definition act0 :: BlockAction where
  "act0 = \<lparr>ActionID = ''ns'', BlockAction.BlockID = ''blk'', BlockAction.Type = ''multi_static_select'', BlockAction.Value = [],
           SelectedOption = \<lparr>OptionBlockObject.Value = []\<rparr>,
           SelectedOptions = [\<lparr>OptionBlockObject.Value = ''default''\<rparr>,
                              \<lparr>OptionBlockObject.Value = ''kube-system''\<rparr>]\<rparr>"

definition act1 :: BlockAction where
  "act1 = \<lparr>ActionID = ''kcc --verbs'', BlockAction.BlockID = ''blk'', BlockAction.Type = ''static_select'', BlockAction.Value = [],
           SelectedOption = \<lparr>OptionBlockObject.Value = ''get''\<rparr>, SelectedOptions = []\<rparr>"

definition act2 :: BlockAction where
  "act2 = \<lparr>ActionID = ''a1'', BlockAction.BlockID = ''blk'', BlockAction.Type = ''button'', BlockAction.Value = ''kubectl get pods'',
           SelectedOption = \<lparr>OptionBlockObject.Value = []\<rparr>, SelectedOptions = []\<rparr>"

definition act3 :: BlockAction where
  "act3 = \<lparr>ActionID = ''a1'', BlockAction.BlockID = ''kc --filter='', BlockAction.Type = ''plain_text_input'',
           BlockAction.Value = '' err '',
           SelectedOption = \<lparr>OptionBlockObject.Value = []\<rparr>, SelectedOptions = []\<rparr>"

definition act4 :: BlockAction where
  "act4 = \<lparr>ActionID = ''a1'', BlockAction.BlockID = ''blk'', BlockAction.Type = ''datepicker'', BlockAction.Value = ''raw'',
           SelectedOption = \<lparr>OptionBlockObject.Value = []\<rparr>, SelectedOptions = []\<rparr>"

text \<open>
  What \<open>strconv.Quote\<close> and \<open>strings.TrimSpace\<close> do on a string of letters with blanks
  around it, for evaluating the resolver.
\<close>

definition quoteSample :: "string \<Rightarrow> string" where
  "quoteSample s = [CHR 0x22] @ s @ [CHR 0x22]"

definition trimSample :: "string \<Rightarrow> string" where
  "trimSample s = rev (dropWhile (\<lambda>c. c = CHR '' '') (rev (dropWhile (\<lambda>c. c = CHR '' '') s)))"

definition msg0 :: socketSlackMessage where
  "msg0 = \<lparr>Text = ''@Botkube get pods'', Channel = ''C1'', ThreadTimeStamp = [], User = ''U7'',
           TriggerID = [], CommandOrigin = TypedOrigin, ResponseURL = [], BlockID = []\<rparr>"

definition fileC9 :: File where
  "fileC9 = \<lparr>ID = ''F1'',
             Shares = \<lparr>Public = [(''C1'', [\<lparr>Ts = []\<rparr>, \<lparr>Ts = ''1700000000.000100''\<rparr>])]\<rparr>\<rparr>"

definition file0 :: File where
  "file0 = \<lparr>ID = ''F2'',
            Shares = \<lparr>Public = [(''C0'', []), (''C1'', [\<lparr>Ts = []\<rparr>]),
                                 (''C2'', [\<lparr>Ts = ''1700000000.000200''\<rparr>, \<lparr>Ts = ''1700000000.000100''\<rparr>])]\<rparr>\<rparr>"

definition fileUp :: File where
  "fileUp = \<lparr>ID = ''F3'', Shares = \<lparr>Public = [(''C1'', [\<lparr>Ts = ''1700000000.000300''\<rparr>])]\<rparr>\<rparr>"

definition client0 :: Client where
  "client0 = \<lparr>uploadFileToSlack = (\<lambda>channel resp ts. Inr fileUp),
              OpenView = (\<lambda>trigger view. None),
              PostEphemeral = (\<lambda>channel user options. None),
              PostMessage = (\<lambda>channel options. None)\<rparr>"

definition resp0 :: Message where
  "resp0 = \<lparr>Type = Default, Base = ''abc'', Sections = [''run again''],
            PlaintextInputs = [''filter''], OnlyVisibleForYou = False, ReplaceOriginal = False\<rparr>"

definition respEmpty :: Message where
  "respEmpty = \<lparr>Type = Default, Base = [], Sections = [''run again''],
            PlaintextInputs = [], OnlyVisibleForYou = False, ReplaceOriginal = False\<rparr>"

text \<open>A renderer for evaluation: the markdown of a message is its base text.\<close>

definition renderSample :: "Message \<Rightarrow> string" where
  "renderSample m = Base m"


definition conf0 :: "(unit, unit) Config" where
  "conf0 = \<lparr>Config.Sources = [''k8s-events'' \<mapsto> ()], Config.Executors = [''kubectl'' \<mapsto> ()]\<rparr>"

definition visited0 :: "(string \<times> Current) list" where
  "visited0 =
     [(''Config.Sources[k8s-events].Kubernetes.Namespaces.'',
         CurNamespaces \<lparr>Include = [''.*'', ''kube-system'']\<rparr>),
      (''Config.Sources[k8s-errors].Kubernetes.Namespaces.'',
         CurNamespaces \<lparr>Include = [''.*'']\<rparr>),
      (''Config.Communications[default].SocketSlack.Channels[a].Bindings.'',
         CurBotBindings \<lparr>BotBindings.Sources = [''k8s-events'', ''typo'', ''gone''],
                         BotBindings.Executors = [''kubectl'', ''helm'']\<rparr>),
      (''Config.Communications[default].Elasticsearch.Bindings.'',
         CurSinkBindings \<lparr>SinkBindings.Sources = [''typo'']\<rparr>)]"

text \<open>The library's English translation of the tag \<open>required\<close>, for evaluation.\<close>

definition requiredTranslation :: "FieldError \<Rightarrow> string" where
  "requiredTranslation fe = Field fe @ '' is a required field''"

definition socketSlackMissingBotToken :: config_SocketSlack where
  "socketSlackMissingBotToken =
     \<lparr>config_SocketSlack.Enabled = True, BotToken = [], AppToken = ''xapp-1-A0''\<rparr>"

definition slackMissingToken :: config_Slack where
  "slackMissingToken = \<lparr>config_Slack.Enabled = True, Token = []\<rparr>"


section \<open>Channel registry: toggling and reading the notify flag\<close>

lemma SetNotificationsEnabled_absent:
  "channels b c = None \<Longrightarrow>
     SetNotificationsEnabled b c en = (b, Some ErrNotificationsNotConfigured)"
  by (simp add: SetNotificationsEnabled_def getChannels_def)

lemma SetNotificationsEnabled_present:
  "channels b c = Some cfg \<Longrightarrow>
     SetNotificationsEnabled b c en
       = (b\<lparr>channels := (channels b)(c \<mapsto> cfg\<lparr>notify := en\<rparr>)\<rparr>, None)"
  by (simp add: SetNotificationsEnabled_def getChannels_def setChannels_def)

text \<open>
  C3.  \<open>SetNotificationsEnabled\<close> returns an error exactly when the channel name is not a
  key of the registry map; in that case the bot (and so the registry map and its set of
  keys) is what it was, and when the name is a key the call returns no error.  A successful
  call never adds a key either.
\<close>

theorem C3_SetNotificationsEnabled_error_iff_absent:
  "(snd (SetNotificationsEnabled b c en) \<noteq> None \<longleftrightarrow> c \<notin> dom (channels b))
   \<and> (c \<notin> dom (channels b) \<longrightarrow>
        SetNotificationsEnabled b c en = (b, Some ErrNotificationsNotConfigured))
   \<and> (c \<in> dom (channels b) \<longrightarrow> snd (SetNotificationsEnabled b c en) = None)
   \<and> dom (channels (fst (SetNotificationsEnabled b c en))) = dom (channels b)"
proof (cases "channels b c")
  case None
  then show ?thesis
    by (simp add: SetNotificationsEnabled_absent domIff)
next
  case (Some cfg)
  then show ?thesis
    by (auto simp add: SetNotificationsEnabled_present)
qed

theorem C3_witness:
  "''Z'' \<notin> dom (channels bot0)
   \<and> SetNotificationsEnabled bot0 ''Z'' True = (bot0, Some ErrNotificationsNotConfigured)
   \<and> ''A'' \<in> dom (channels bot0)
   \<and> snd (SetNotificationsEnabled bot0 ''A'' False) = None"
  using C3_SetNotificationsEnabled_error_iff_absent [of bot0 "''Z''" True]
        C3_SetNotificationsEnabled_error_iff_absent [of bot0 "''A''" False]
  by (simp add: bot0_def)

text \<open>
  C4.  When \<open>SetNotificationsEnabled\<close> succeeds, the bot afterwards differs from the bot
  before only in the registry map, the map differs only at the given channel name, and the
  entry there differs only in its \<open>notify\<close> field, which is the requested value; so
  \<open>NotificationsEnabled\<close> then returns that value.  Enabling and then disabling leaves the
  channel disabled.
\<close>

theorem C4_SetNotificationsEnabled_frame:
  "snd (SetNotificationsEnabled b c en) = None \<Longrightarrow>
     (\<exists>cfg. channels b c = Some cfg
        \<and> fst (SetNotificationsEnabled b c en)
            = b\<lparr>channels := (channels b)(c \<mapsto> cfg\<lparr>notify := en\<rparr>)\<rparr>)
     \<and> (\<forall>c'. c' \<noteq> c \<longrightarrow>
            channels (fst (SetNotificationsEnabled b c en)) c' = channels b c')
     \<and> NotificationsEnabled (fst (SetNotificationsEnabled b c en)) c = en
     \<and> snd (SetNotificationsEnabled (fst (SetNotificationsEnabled b c True)) c False) = None
     \<and> NotificationsEnabled
          (fst (SetNotificationsEnabled (fst (SetNotificationsEnabled b c True)) c False)) c
         = False"
proof -
  assume ok: "snd (SetNotificationsEnabled b c en) = None"
  then obtain cfg where cfg: "channels b c = Some cfg"
    by (cases "channels b c") (simp_all add: SetNotificationsEnabled_absent)
  have after: "fst (SetNotificationsEnabled b c e)
                 = b\<lparr>channels := (channels b)(c \<mapsto> cfg\<lparr>notify := e\<rparr>)\<rparr>" for e
    using cfg by (simp add: SetNotificationsEnabled_present)
  have twice: "SetNotificationsEnabled (fst (SetNotificationsEnabled b c True)) c False
                 = (b\<lparr>channels := (channels b)(c \<mapsto> cfg\<lparr>notify := False\<rparr>)\<rparr>, None)"
    unfolding after
    by (simp add: SetNotificationsEnabled_def getChannels_def setChannels_def)
  have frame: "\<forall>c'. c' \<noteq> c \<longrightarrow>
                 channels (fst (SetNotificationsEnabled b c en)) c' = channels b c'"
    by (simp add: after)
  have reads: "NotificationsEnabled (fst (SetNotificationsEnabled b c en)) c = en"
    by (simp add: after NotificationsEnabled_def getChannels_def)
  have off: "NotificationsEnabled
               (fst (SetNotificationsEnabled (fst (SetNotificationsEnabled b c True)) c False)) c
             = False"
    unfolding twice by (simp add: NotificationsEnabled_def getChannels_def)
  from cfg after [of en] frame reads twice off show ?thesis
    by simp
qed

theorem C4_witness:
  "snd (SetNotificationsEnabled bot0 ''B'' True) = None
   \<and> channels (fst (SetNotificationsEnabled bot0 ''B'' True)) ''B'' = Some (chanB\<lparr>notify := True\<rparr>)
   \<and> channels (fst (SetNotificationsEnabled bot0 ''B'' True)) ''A'' = Some chanA
   \<and> NotificationsEnabled (fst (SetNotificationsEnabled bot0 ''B'' True)) ''B''"
proof -
  have ok: "snd (SetNotificationsEnabled bot0 ''B'' True) = None"
    by (simp add: SetNotificationsEnabled_def getChannels_def setChannels_def bot0_def)
  from C4_SetNotificationsEnabled_frame [OF ok] show ?thesis
    using ok by (auto simp add: bot0_def)
qed

text \<open>
  C10.  For a channel name that is not a key of the registry, \<open>NotificationsEnabled\<close>
  returns \<open>False\<close>.  The function is total (it is defined by a case distinction on the
  lookup, with no partial operation) and returns only a truth value, so it neither fails
  nor changes the registry.
\<close>

theorem C10_NotificationsEnabled_absent:
  "c \<notin> dom (channels b) \<Longrightarrow> NotificationsEnabled b c = False"
  by (simp add: NotificationsEnabled_def getChannels_def domIff)

theorem C10_witness:
  "''Z'' \<notin> dom (channels bot0) \<and> NotificationsEnabled bot0 ''Z'' = False"
proof -
  have absent: "''Z'' \<notin> dom (channels bot0)"
    by (simp add: bot0_def)
  from C10_NotificationsEnabled_absent [OF absent] absent show ?thesis
    by simp
qed

section \<open>Notification router\<close>

lemma getChannelsToNotify_loop_filter:
  "getChannelsToNotify_loop srcs cfgs out
     = out @ map Identifier
         (filter (\<lambda>c. notify c \<and> set (BotBindings.Sources (Bindings c)) \<inter> set srcs \<noteq> {}) cfgs)"
  by (induction cfgs arbitrary: out) (auto simp add: Intersect_def)

lemma set_snapshot_order:
  "set (snapshot b order) = {c. \<exists>k \<in> set order. channels b k = Some c}"
  by (induction order) (auto simp add: getChannels_def split: option.splits)

lemma set_snapshot:
  "set order = dom (channels b) \<Longrightarrow> set (snapshot b order) = ran (channels b)"
  by (auto simp add: set_snapshot_order ran_def dom_def)

lemma Targets_keyed:
  "keyedByIdentifier b order \<Longrightarrow>
     map Identifier
       (filter (\<lambda>c. notify c \<and> set (BotBindings.Sources (Bindings c)) \<inter> set srcs \<noteq> {})
          (snapshot b order))
     = filter (\<lambda>k. case channels b k of
                      None \<Rightarrow> False
                    | Some c \<Rightarrow> notify c \<and> set (BotBindings.Sources (Bindings c)) \<inter> set srcs \<noteq> {})
         order"
  by (induction order)
     (auto simp add: getChannels_def keyedByIdentifier_def split: option.splits)

text \<open>
  C1.  For every event, every registry and every order in which the registry is visited, the
  target list of the router is the reference definition \<open>Targets_spec\<close> applied to the
  registry snapshot: a non-empty \<open>Channel\<close> of the event gives exactly that one channel,
  whatever the notify flags and bindings; otherwise the list holds exactly the identifiers of
  the channels whose notify flag is set and whose source bindings share a name with the
  source bindings of the event; with the registry keyed by identifier, the list is the visited
  keys with those not qualifying left out, and a channel whose notify flag is off is not in
  the list.
\<close>

theorem C1_router_refines_reference:
  assumes "set order = dom (channels b)"
  shows "getChannelsToNotifyForEvent b order ev srcs = Targets_spec ev (snapshot b order) srcs
    \<and> (Event.Channel ev \<noteq> [] \<longrightarrow> getChannelsToNotifyForEvent b order ev srcs = [Event.Channel ev])
    \<and> (Event.Channel ev = [] \<longrightarrow>
          set (getChannelsToNotifyForEvent b order ev srcs)
            = Identifier ` {c \<in> ran (channels b).
                 notify c \<and> set (BotBindings.Sources (Bindings c)) \<inter> set srcs \<noteq> {}})
    \<and> (Event.Channel ev = [] \<and> keyedByIdentifier b order \<longrightarrow>
          getChannelsToNotifyForEvent b order ev srcs
            = filter (\<lambda>k. case channels b k of
                             None \<Rightarrow> False
                           | Some c \<Rightarrow> notify c
                               \<and> set (BotBindings.Sources (Bindings c)) \<inter> set srcs \<noteq> {})
                order)
    \<and> (Event.Channel ev = [] \<and> keyedByIdentifier b order \<longrightarrow>
          (\<forall>k cfg. channels b k = Some cfg \<and> \<not> notify cfg \<longrightarrow>
             k \<notin> set (getChannelsToNotifyForEvent b order ev srcs)))"
proof -
  let ?P = "\<lambda>c. notify c \<and> set (BotBindings.Sources (Bindings c)) \<inter> set srcs \<noteq> {}"
  have refine: "getChannelsToNotifyForEvent b order ev srcs = Targets_spec ev (snapshot b order) srcs"
    by (simp add: getChannelsToNotifyForEvent_def getChannelsToNotify_def Targets_spec_def
        getChannelsToNotify_loop_filter)
  have explicit: "Event.Channel ev \<noteq> [] \<longrightarrow> getChannelsToNotifyForEvent b order ev srcs = [Event.Channel ev]"
    by (simp add: getChannelsToNotifyForEvent_def)
  have members: "Event.Channel ev = [] \<longrightarrow>
          set (getChannelsToNotifyForEvent b order ev srcs) = Identifier ` {c \<in> ran (channels b). ?P c}"
    using set_snapshot [OF assms] by (auto simp add: refine Targets_spec_def)
  have skipped: "Event.Channel ev = [] \<and> keyedByIdentifier b order \<longrightarrow>
          (\<forall>k cfg. channels b k = Some cfg \<and> \<not> notify cfg \<longrightarrow>
             k \<notin> set (getChannelsToNotifyForEvent b order ev srcs))"
  proof (intro impI allI notI, elim conjE)
    fix k cfg
    assume empty: "Event.Channel ev = []" and keyed: "keyedByIdentifier b order"
      and cfg: "channels b k = Some cfg" and off: "\<not> notify cfg"
      and mem: "k \<in> set (getChannelsToNotifyForEvent b order ev srcs)"
    from mem members empty obtain c where c: "c \<in> ran (channels b)" "notify c" "Identifier c = k"
      by auto
    from c(1) obtain k' where k': "channels b k' = Some c"
      by (auto simp add: ran_def)
    then have "k' \<in> set order"
      using assms by (simp add: domI)
    with keyed k' c(3) have "k' = k"
      by (auto simp add: keyedByIdentifier_def)
    with k' cfg have "c = cfg" by simp
    with c(2) off show False by simp
  qed
  have listed: "Event.Channel ev = [] \<and> keyedByIdentifier b order \<longrightarrow>
          getChannelsToNotifyForEvent b order ev srcs
            = filter (\<lambda>k. case channels b k of
                             None \<Rightarrow> False
                           | Some c \<Rightarrow> notify c
                               \<and> set (BotBindings.Sources (Bindings c)) \<inter> set srcs \<noteq> {})
                order"
    by (simp add: refine Targets_spec_def Targets_keyed)
  from refine explicit members listed skipped show ?thesis by blast
qed

theorem C1_witness:
  "set [''A'', ''B''] = dom (channels bot0)
   \<and> getChannelsToNotifyForEvent bot0 [''A'', ''B''] event0 [''k8s-events''] = [''A'']
   \<and> getChannelsToNotifyForEvent bot0 [''A'', ''B''] (event0\<lparr>Event.Channel := ''X''\<rparr>) [''k8s-events''] = [''X'']
   \<and> keyedByIdentifier bot0 [''A'', ''B''] \<and> ''B'' \<notin> set (getChannelsToNotifyForEvent bot0 [''A'', ''B''] event0 [''k8s-events''])"
proof -
  have keys: "set [''A'', ''B''] = dom (channels bot0)"
    by (auto simp add: bot0_def)
  have keyed: "keyedByIdentifier bot0 [''A'', ''B'']"
    by (simp add: keyedByIdentifier_def bot0_def chanA_def chanB_def Identifier_def)
  have snap: "snapshot bot0 [''A'', ''B''] = [chanA, chanB]"
    by (simp add: getChannels_def bot0_def)
  have B: "channels bot0 ''B'' = Some chanB \<and> \<not> notify chanB"
    by (simp add: bot0_def chanB_def)
  have r1: "getChannelsToNotifyForEvent bot0 [''A'', ''B''] event0 [''k8s-events'']
              = Targets_spec event0 (snapshot bot0 [''A'', ''B'']) [''k8s-events'']"
    using C1_router_refines_reference [OF keys, of event0 "[''k8s-events'']"] by blast
  have x: "Event.Channel (event0\<lparr>Event.Channel := ''X''\<rparr>) = ''X''"
    and xne: "Event.Channel (event0\<lparr>Event.Channel := ''X''\<rparr>) \<noteq> []" and e: "Event.Channel event0 = []"
    by (simp_all add: event0_def)
  have r2: "getChannelsToNotifyForEvent bot0 [''A'', ''B''] (event0\<lparr>Event.Channel := ''X''\<rparr>) [''k8s-events'']
              = [''X'']"
    using C1_router_refines_reference [OF keys, of "event0\<lparr>Event.Channel := ''X''\<rparr>" "[''k8s-events'']"]
    using xne unfolding x by blast
  have r3: "''B'' \<notin> set (getChannelsToNotifyForEvent bot0 [''A'', ''B''] event0 [''k8s-events''])"
    using C1_router_refines_reference [OF keys, of event0 "[''k8s-events'']"] keyed B e
    by blast
  have t: "Targets_spec event0 [chanA, chanB] [''k8s-events''] = [''A'']"
    by (simp add: Targets_spec_def event0_def chanA_def chanB_def Identifier_def)
  from keys keyed r1 r2 r3 show ?thesis
    by (simp only: snap t simp_thms)
qed


section \<open>Interactive action resolver\<close>

lemma selectedValues_map:
  "selectedValues opts items = items @ map OptionBlockObject.Value opts"
  by (induction opts arbitrary: items) auto

text \<open>
  C2.  The resolver follows the table of the spec, kind by kind: a multi-select change gives
  the action id, a blank and the selected values joined by commas, with origin
  MultiSelectChange; a single-select change gives the action id, a blank and the selected
  value, with origin SelectChange; a button click gives the value of the payload as it is, with
  origin ButtonClick; a plain-text input gives the block id directly followed by the quoted,
  trimmed value, with origin PlainTextInput; every other kind gives the value as it is, with
  origin Unknown.
\<close>

theorem C2_resolver_table:
  "(BlockAction.Type act = ''multi_static_select'' \<longrightarrow>
      resolveBlockActionCommand Quote TrimSpace act
        = (ActionID act @ '' '' @ Join (map OptionBlockObject.Value (SelectedOptions act)) '','',
           MultiSelectValueChangeOrigin))
   \<and> (BlockAction.Type act = ''static_select'' \<longrightarrow>
      resolveBlockActionCommand Quote TrimSpace act
        = (ActionID act @ '' '' @ OptionBlockObject.Value (SelectedOption act),
           SelectValueChangeOrigin))
   \<and> (BlockAction.Type act = ''button'' \<longrightarrow>
      resolveBlockActionCommand Quote TrimSpace act = (BlockAction.Value act, ButtonClickOrigin))
   \<and> (BlockAction.Type act = ''plain_text_input'' \<longrightarrow>
      resolveBlockActionCommand Quote TrimSpace act
        = (BlockAction.BlockID act @ Quote (TrimSpace (BlockAction.Value act)),
           PlainTextInputOrigin))
   \<and> (BlockAction.Type act
        \<notin> {''multi_static_select'', ''static_select'', ''button'', ''plain_text_input''} \<longrightarrow>
      resolveBlockActionCommand Quote TrimSpace act = (BlockAction.Value act, UnknownOrigin))"
  by (simp add: resolveBlockActionCommand_def selectedValues_map)

theorem C2_witness:
  "resolveBlockActionCommand quoteSample trimSample act0
     = (''ns default,kube-system'', MultiSelectValueChangeOrigin)
   \<and> resolveBlockActionCommand quoteSample trimSample act1
     = (''kcc --verbs get'', SelectValueChangeOrigin)
   \<and> resolveBlockActionCommand quoteSample trimSample act2
     = (''kubectl get pods'', ButtonClickOrigin)
   \<and> resolveBlockActionCommand quoteSample trimSample act3
     = (''kc --filter='' @ [CHR 0x22] @ ''err'' @ [CHR 0x22], PlainTextInputOrigin)
   \<and> resolveBlockActionCommand quoteSample trimSample act4 = (''raw'', UnknownOrigin)"
proof -
  have r0: "resolveBlockActionCommand quoteSample trimSample act0
              = (''ns default,kube-system'', MultiSelectValueChangeOrigin)"
    using C2_resolver_table [of act0 quoteSample trimSample] by (simp add: act0_def)
  have r1: "resolveBlockActionCommand quoteSample trimSample act1
              = (''kcc --verbs get'', SelectValueChangeOrigin)"
    using C2_resolver_table [of act1 quoteSample trimSample] by (simp add: act1_def)
  have r2: "resolveBlockActionCommand quoteSample trimSample act2
              = (''kubectl get pods'', ButtonClickOrigin)"
    using C2_resolver_table [of act2 quoteSample trimSample] by (simp add: act2_def)
  have r3: "resolveBlockActionCommand quoteSample trimSample act3
              = (''kc --filter='' @ [CHR 0x22] @ ''err'' @ [CHR 0x22], PlainTextInputOrigin)"
    using C2_resolver_table [of act3 quoteSample trimSample]
    by (simp add: act3_def quoteSample_def trimSample_def)
  have r4: "resolveBlockActionCommand quoteSample trimSample act4 = (''raw'', UnknownOrigin)"
    using C2_resolver_table [of act4 quoteSample trimSample] by (simp add: act4_def)
  from r0 r1 r2 r3 r4 show ?thesis by blast
qed

section \<open>Thread target of a response\<close>

lemma publicSharesLoop_eq:
  "publicSharesLoop shares =
     (case filter (\<lambda>ts. ts \<noteq> [])
             (map (\<lambda>share. Ts (share ! 0)) (filter (\<lambda>share. length share \<ge> 1) (map snd shares))) of
        [] \<Rightarrow> None
      | ts # _ \<Rightarrow> Some (MsgOptionTS ts))"
  by (induction shares rule: publicSharesLoop.induct) auto

text \<open>
  C9, as stated, fails: a file whose only public share with a non-empty timestamp is the
  second share of its channel gets no thread target, although the spec's reading
  (\<open>threadTarget_spec\<close>) names that share.
\<close>

theorem C9_counterexample:
  "ThreadTimeStamp msg0 = []
   \<and> publicShareTimestamps fileC9 = [''1700000000.000100'']
   \<and> threadTarget_spec msg0 (Some fileC9) = Some (MsgOptionTS ''1700000000.000100'')
   \<and> getThreadOptionIfNeeded msg0 (Some fileC9) = None"
  by (simp add: msg0_def fileC9_def publicShareTimestamps_def threadTarget_spec_def
      getThreadOptionIfNeeded_def)

text \<open>
  C9, amended.  If the originating message carries a non-empty thread timestamp, the response
  targets it.  Otherwise, if a file was uploaded, the loop looks at the first share of each
  channel of the file's public shares (channels without a share are passed over, later shares
  of a channel are not looked at) and the response targets the first of these timestamps that
  is non-empty, in the order in which the loop visits the channels.  Otherwise no thread
  target is set.
\<close>

theorem C9_thread_target:
  "getThreadOptionIfNeeded event file =
     (if ThreadTimeStamp event \<noteq> [] then Some (MsgOptionTS (ThreadTimeStamp event))
      else case file of
             None \<Rightarrow> None
           | Some f \<Rightarrow>
               (case filter (\<lambda>ts. ts \<noteq> []) (firstShareTimestamps f) of
                  [] \<Rightarrow> None
                | ts # _ \<Rightarrow> Some (MsgOptionTS ts)))"
  by (simp add: getThreadOptionIfNeeded_def firstShareTimestamps_def publicSharesLoop_eq
      split: option.splits)

theorem C9_witness:
  "getThreadOptionIfNeeded (msg0\<lparr>ThreadTimeStamp := ''1699999999.000001''\<rparr>) (Some file0)
     = Some (MsgOptionTS ''1699999999.000001'')
   \<and> getThreadOptionIfNeeded msg0 (Some file0) = Some (MsgOptionTS ''1700000000.000200'')
   \<and> getThreadOptionIfNeeded msg0 None = None"
proof -
  have a: "getThreadOptionIfNeeded (msg0\<lparr>ThreadTimeStamp := ''1699999999.000001''\<rparr>) (Some file0)
     = Some (MsgOptionTS ''1699999999.000001'')"
    using C9_thread_target [of "msg0\<lparr>ThreadTimeStamp := ''1699999999.000001''\<rparr>" "Some file0"]
    by (simp add: msg0_def)
  have b: "getThreadOptionIfNeeded msg0 (Some file0) = Some (MsgOptionTS ''1700000000.000200'')"
    using C9_thread_target [of msg0 "Some file0"]
    by (simp add: msg0_def file0_def firstShareTimestamps_def)
  have c: "getThreadOptionIfNeeded msg0 None = None"
    using C9_thread_target [of msg0 None]
    by (simp add: msg0_def)
  from a b c show ?thesis by blast
qed


section \<open>Delivery of a response\<close>

lemma send_deliver_modal:
  "Message.Type resp = Popup \<and> TriggerID event \<noteq> [] \<Longrightarrow>
     fst (send_deliver client event resp file)
       = [OpenViewCall (TriggerID event)
            ((RenderModal resp)\<lparr>PrivateMetadata := socketSlackMessage.Channel event\<rparr>)]"
  by (simp add: send_deliver_def Let_def split: option.splits)

lemma send_deliver_post:
  "\<not> (Message.Type resp = Popup \<and> TriggerID event \<noteq> []) \<Longrightarrow>
     fst (send_deliver client event resp file)
       = (let options = RenderInteractiveMessage resp
               # (case getThreadOptionIfNeeded event file of None \<Rightarrow> [] | Some ts \<Rightarrow> [ts])
               @ (if ReplaceOriginal resp \<and> ResponseURL event \<noteq> []
                  then [MsgOptionReplaceOriginal (ResponseURL event)] else [])
          in if OnlyVisibleForYou resp
             then [PostEphemeralCall (socketSlackMessage.Channel event) (User event) options]
             else [PostMessageCall (socketSlackMessage.Channel event) options])"
  by (cases "getThreadOptionIfNeeded event file")
     (simp_all add: send_deliver_def Let_def split: option.splits)

lemma send_deliver_shape:
  "\<exists>c. fst (send_deliver client event resp file) = [c] \<and> \<not> isUpload c
        \<and> deliveredMessage c = Some resp"
proof (cases "Message.Type resp = Popup \<and> TriggerID event \<noteq> []")
  case True
  from send_deliver_modal [OF True] show ?thesis
    by (simp add: RenderModal_def)
next
  case False
  from send_deliver_post [OF False] show ?thesis
    by (simp add: Let_def)
qed

lemma send_deliver_fallback:
  "fst (send_deliver client event (zeroMessage\<lparr>PlaintextInputs := inputs\<rparr>) file)
     = [PostMessageCall (socketSlackMessage.Channel event)
          (RenderInteractiveMessage (zeroMessage\<lparr>PlaintextInputs := inputs\<rparr>)
             # (case getThreadOptionIfNeeded event file of None \<Rightarrow> [] | Some ts \<Rightarrow> [ts]))]"
  by (simp add: send_deliver_post zeroMessage_def)

text \<open>
  C8, as stated, fails: a message whose rendering has exactly the threshold size does not
  exceed the threshold, yet it is uploaded as a file and posted with only its plain-text
  inputs; and a message whose rendering is empty does not exceed the threshold either, yet
  nothing is posted and an error is returned.
\<close>

theorem C8_counterexample:
  "\<not> length (renderSample resp0) > 3
   \<and> send renderSample 3 client0 msg0 resp0
       = ([uploadFileToSlackCall ''C1'' resp0 [],
           PostMessageCall ''C1''
             [RenderInteractiveMessage (zeroMessage\<lparr>PlaintextInputs := [''filter'']\<rparr>),
              MsgOptionTS ''1700000000.000300'']], None)
   \<and> zeroMessage\<lparr>PlaintextInputs := [''filter'']\<rparr> \<noteq> resp0
   \<and> \<not> length (renderSample respEmpty) > 3
   \<and> send renderSample 3 client0 msg0 respEmpty
       = ([], Some (Error ''while reading Slack response: empty response''))"
  by (simp add: send_def send_deliver_def getThreadOptionIfNeeded_def renderSample_def resp0_def
      msg0_def client0_def fileUp_def zeroMessage_def respEmpty_def)

text \<open>
  C8, amended.  A response whose rendering is empty is rejected with an error and no call is
  made.  For a response whose rendering is not empty: if the size of the rendering is
  at least \<open>slackMaxMessageSize\<close>, the response is first uploaded as a file; if the upload
  fails nothing is posted and the error is returned, and if it succeeds the one further call is
  a channel post of the message that keeps only the plain-text inputs of the response (every
  other field is the zero value), with the thread option.  If the size is below
  \<open>slackMaxMessageSize\<close>, there is no upload and the one call made (modal, ephemeral post or
  channel post) delivers the response with all its fields.
\<close>

theorem C8_send_upload_fallback:
  "(RenderMessage resp = [] \<longrightarrow>
      send RenderMessage slackMaxMessageSize client event resp
        = ([], Some (Error ''while reading Slack response: empty response'')))
   \<and> (RenderMessage resp \<noteq> [] \<and> length (RenderMessage resp) \<ge> slackMaxMessageSize \<longrightarrow>
        (case uploadFileToSlack client (socketSlackMessage.Channel event) resp (ThreadTimeStamp event) of
           Inl err \<Rightarrow>
             send RenderMessage slackMaxMessageSize client event resp
               = ([uploadFileToSlackCall (socketSlackMessage.Channel event) resp (ThreadTimeStamp event)],
                  Some err)
         | Inr file \<Rightarrow>
             fst (send RenderMessage slackMaxMessageSize client event resp)
               = [uploadFileToSlackCall (socketSlackMessage.Channel event) resp (ThreadTimeStamp event),
                  PostMessageCall (socketSlackMessage.Channel event)
                    (RenderInteractiveMessage (zeroMessage\<lparr>PlaintextInputs := PlaintextInputs resp\<rparr>)
                       # (case getThreadOptionIfNeeded event (Some file) of
                            None \<Rightarrow> []
                          | Some ts \<Rightarrow> [ts]))]))
   \<and> (RenderMessage resp \<noteq> [] \<and> length (RenderMessage resp) < slackMaxMessageSize \<longrightarrow>
        (\<exists>c. fst (send RenderMessage slackMaxMessageSize client event resp) = [c]
              \<and> \<not> isUpload c \<and> deliveredMessage c = Some resp))"
proof (intro conjI impI)
  assume "RenderMessage resp = []"
  then show "send RenderMessage slackMaxMessageSize client event resp
        = ([], Some (Error ''while reading Slack response: empty response''))"
    by (simp add: send_def)
next
  assume "RenderMessage resp \<noteq> [] \<and> length (RenderMessage resp) \<ge> slackMaxMessageSize"
  then show "case uploadFileToSlack client (socketSlackMessage.Channel event) resp (ThreadTimeStamp event) of
           Inl err \<Rightarrow>
             send RenderMessage slackMaxMessageSize client event resp
               = ([uploadFileToSlackCall (socketSlackMessage.Channel event) resp (ThreadTimeStamp event)],
                  Some err)
         | Inr file \<Rightarrow>
             fst (send RenderMessage slackMaxMessageSize client event resp)
               = [uploadFileToSlackCall (socketSlackMessage.Channel event) resp (ThreadTimeStamp event),
                  PostMessageCall (socketSlackMessage.Channel event)
                    (RenderInteractiveMessage (zeroMessage\<lparr>PlaintextInputs := PlaintextInputs resp\<rparr>)
                       # (case getThreadOptionIfNeeded event (Some file) of
                            None \<Rightarrow> []
                          | Some ts \<Rightarrow> [ts]))]"
    by (simp add: send_def send_deliver_fallback Let_def split: sum.splits)
next
  assume a: "RenderMessage resp \<noteq> [] \<and> length (RenderMessage resp) < slackMaxMessageSize"
  then have "send RenderMessage slackMaxMessageSize client event resp
               = send_deliver client event resp None"
    by (simp add: send_def)
  with send_deliver_shape [of client event resp None]
  show "\<exists>c. fst (send RenderMessage slackMaxMessageSize client event resp) = [c]
              \<and> \<not> isUpload c \<and> deliveredMessage c = Some resp"
    by simp
qed

theorem C8_witness:
  "renderSample resp0 \<noteq> []
   \<and> fst (send renderSample 3 client0 msg0 resp0)
       = [uploadFileToSlackCall ''C1'' resp0 [],
          PostMessageCall ''C1''
            [RenderInteractiveMessage (zeroMessage\<lparr>PlaintextInputs := [''filter'']\<rparr>),
             MsgOptionTS ''1700000000.000300'']]
   \<and> (\<exists>c. fst (send renderSample 4 client0 msg0 resp0) = [c]
            \<and> \<not> isUpload c \<and> deliveredMessage c = Some resp0)"
proof -
  have ne: "renderSample resp0 \<noteq> []"
    by (simp add: renderSample_def resp0_def)
  have len: "length (renderSample resp0) = 3"
    by (simp add: renderSample_def resp0_def)
  have upload: "uploadFileToSlack client0 ''C1'' resp0 [] = Inr fileUp"
    by (simp add: client0_def)
  have thread: "getThreadOptionIfNeeded msg0 (Some fileUp) = Some (MsgOptionTS ''1700000000.000300'')"
    by (simp add: getThreadOptionIfNeeded_def msg0_def fileUp_def)
  have fields: "socketSlackMessage.Channel msg0 = ''C1''" "ThreadTimeStamp msg0 = []"
    "PlaintextInputs resp0 = [''filter'']"
    by (simp_all add: msg0_def resp0_def)
  note at3 = C8_send_upload_fallback [of renderSample resp0 3 client0 msg0]
  note at4 = C8_send_upload_fallback [of renderSample resp0 4 client0 msg0]
  have up: "fst (send renderSample 3 client0 msg0 resp0)
       = [uploadFileToSlackCall ''C1'' resp0 [],
          PostMessageCall ''C1''
            [RenderInteractiveMessage (zeroMessage\<lparr>PlaintextInputs := [''filter'']\<rparr>),
             MsgOptionTS ''1700000000.000300'']]"
    using at3 ne by (simp add: len upload thread fields)
  have below: "\<exists>c. fst (send renderSample 4 client0 msg0 resp0) = [c]
            \<and> \<not> isUpload c \<and> deliveredMessage c = Some resp0"
    using at4 ne by (simp add: len)
  from ne up below show ?thesis by blast
qed


section \<open>Configuration validator\<close>

lemma routeErrors_eq:
  "routeErrors tr errs result =
     \<lparr>Criticals = Criticals result @ map (message tr) (criticalErrors errs),
      Warnings = ValidateResult.Warnings result @ map (message tr) (warningErrors errs)\<rparr>"
  by (induction errs arbitrary: result) (simp_all add: criticalErrors_def warningErrors_def Let_def)

lemma ValidateStruct_eq:
  "ValidateStruct tr allNs topVal visited =
     \<lparr>Criticals = map (message tr) (criticalErrors (validate_Struct topVal allNs visited)),
      Warnings = map (message tr) (warningErrors (validate_Struct topVal allNs visited))\<rparr>"
  by (simp add: ValidateStruct_def routeErrors_eq Let_def criticalErrors_def warningErrors_def)

lemma validateSourceBindings_spec:
  "validateSourceBindings ns sources bindings = invalidSources_spec ns sources bindings"
  by (induction bindings) (auto simp add: invalidSources_spec_def)

lemma validateExecutorBindings_spec:
  "validateExecutorBindings ns executors bindings = invalidExecutors_spec ns executors bindings"
  by (induction bindings) (auto simp add: invalidExecutors_spec_def)

lemma foundAllNamespaceIndicator_iff:
  "foundAllNamespaceIndicator allNs names \<longleftrightarrow> allNs \<in> set names"
  by (induction names) auto

lemma namespacesStructValidator_eq:
  "namespacesStructValidator allNs ns nsv =
     (if 2 \<le> length (Include nsv) \<and> allNs \<in> set (Include nsv)
      then [ReportError ns ''Include'' ''Include'' nsIncludeTag []] else [])"
  by (auto simp add: namespacesStructValidator_def foundAllNamespaceIndicator_iff)

lemma Tag_ReportError [simp]: "Tag (ReportError ns f sf tag param) = tag"
  by (simp add: ReportError_def)

lemma tags_distinct [simp]:
  "invalidBindingTag \<noteq> nsIncludeTag" "nsIncludeTag \<noteq> invalidBindingTag"
  "''required'' \<noteq> nsIncludeTag" "''required'' \<noteq> invalidBindingTag"
  "''invalid_slack_token'' \<noteq> nsIncludeTag" "''invalid_slack_token'' \<noteq> invalidBindingTag"
  by (simp_all add: nsIncludeTag_def invalidBindingTag_def)

lemma filter_invalidSources [simp]:
  "filter (\<lambda>e. Tag e = invalidBindingTag) (invalidSources_spec ns sources bindings)
     = invalidSources_spec ns sources bindings"
  "filter (\<lambda>e. Tag e = nsIncludeTag) (invalidSources_spec ns sources bindings) = []"
  by (simp_all add: invalidSources_spec_def filter_map o_def)

lemma filter_invalidExecutors [simp]:
  "filter (\<lambda>e. Tag e = invalidBindingTag) (invalidExecutors_spec ns executors bindings)
     = invalidExecutors_spec ns executors bindings"
  "filter (\<lambda>e. Tag e = nsIncludeTag) (invalidExecutors_spec ns executors bindings) = []"
  by (simp_all add: invalidExecutors_spec_def filter_map o_def)

lemma filter_slack [simp]:
  "filter (\<lambda>e. Tag e = invalidBindingTag) (slackStructTokenValidator ns slack) = []"
  "filter (\<lambda>e. Tag e = nsIncludeTag) (slackStructTokenValidator ns slack) = []"
  by (simp_all add: slackStructTokenValidator_def Let_def)

lemma filter_socketSlack [simp]:
  "filter (\<lambda>e. Tag e = invalidBindingTag) (socketSlackStructTokenValidator ns slack) = []"
  "filter (\<lambda>e. Tag e = nsIncludeTag) (socketSlackStructTokenValidator ns slack) = []"
  by (simp_all add: socketSlackStructTokenValidator_def Let_def)

lemma filter_namespaces [simp]:
  "filter (\<lambda>e. Tag e = invalidBindingTag) (namespacesStructValidator allNs ns nsv) = []"
  "filter (\<lambda>e. Tag e = nsIncludeTag) (namespacesStructValidator allNs ns nsv)
     = namespacesStructValidator allNs ns nsv"
  by (simp_all add: namespacesStructValidator_eq)

lemma structLevel_invalid_binding:
  "filter (\<lambda>e. Tag e = invalidBindingTag) (structLevel (TopConfig conf) allNs v)
     = invalidBindings_spec conf [v]"
proof (cases v)
  case (Pair ns cur)
  then show ?thesis
    by (cases cur)
       (simp_all add: botBindingsStructValidator_def actionBindingsStructValidator_def
          sinkBindingsStructValidator_def validateSourceBindings_spec validateExecutorBindings_spec)
qed

lemma invalidBindings_spec_Cons:
  "invalidBindings_spec conf (v # rest) = invalidBindings_spec conf [v] @ invalidBindings_spec conf rest"
proof (cases v)
  case (Pair ns cur)
  then show ?thesis by (cases cur) simp_all
qed

lemma validate_Struct_invalid_binding:
  "filter (\<lambda>e. Tag e = invalidBindingTag) (validate_Struct (TopConfig conf) allNs visited)
     = invalidBindings_spec conf visited"
proof (induction visited)
  case Nil
  then show ?case by (simp add: validate_Struct_def)
next
  case (Cons v rest)
  then show ?case
    using invalidBindings_spec_Cons [of conf v rest]
    by (simp add: validate_Struct_def structLevel_invalid_binding del: invalidBindings_spec.simps)
qed

lemma structLevel_ns_include:
  "filter (\<lambda>e. Tag e = nsIncludeTag) (structLevel topVal allNs v)
     = nsIncludeWarnings_spec allNs [v]"
proof (cases v)
  case (Pair ns cur)
  then show ?thesis
    by (cases cur; cases topVal)
       (simp_all add: botBindingsStructValidator_def actionBindingsStructValidator_def
          sinkBindingsStructValidator_def validateSourceBindings_spec validateExecutorBindings_spec
          namespacesStructValidator_eq)
qed

lemma nsIncludeWarnings_spec_Cons:
  "nsIncludeWarnings_spec allNs (v # rest)
     = nsIncludeWarnings_spec allNs [v] @ nsIncludeWarnings_spec allNs rest"
proof (cases v)
  case (Pair ns cur)
  then show ?thesis by (cases cur) simp_all
qed

lemma validate_Struct_ns_include:
  "filter (\<lambda>e. Tag e = nsIncludeTag) (validate_Struct topVal allNs visited)
     = nsIncludeWarnings_spec allNs visited"
proof (induction visited)
  case Nil
  then show ?case by (simp add: validate_Struct_def)
next
  case (Cons v rest)
  then show ?case
    using nsIncludeWarnings_spec_Cons [of allNs v rest]
    by (simp add: validate_Struct_def structLevel_ns_include del: nsIncludeWarnings_spec.simps)
qed

lemma warningErrors_eq:
  "warningErrors errs = filter (\<lambda>e. Tag e = nsIncludeTag) errs"
  by (simp add: warningErrors_def warnsOnlyTags_def)

lemma criticalErrors_eq:
  "criticalErrors errs = filter (\<lambda>e. Tag e \<noteq> nsIncludeTag) errs"
  by (simp add: criticalErrors_def warnsOnlyTags_def)

lemma Field_ReportError [simp]: "Field (ReportError ns f sf tag param) = f"
  by (simp add: ReportError_def)

lemma count_invalidSources:
  "length (filter (\<lambda>e. Field e = name) (invalidSources_spec ns sources bindings))
     = (if name \<in> dom sources then 0 else count_list bindings name)"
  by (induction bindings) (auto simp add: invalidSources_spec_def filter_map o_def domIff split: if_splits)

lemma count_invalidExecutors:
  "length (filter (\<lambda>e. Field e = name) (invalidExecutors_spec ns executors bindings))
     = (if name \<in> dom executors then 0 else count_list bindings name)"
  by (induction bindings) (auto simp add: invalidExecutors_spec_def filter_map o_def domIff split: if_splits)

text \<open>
  C5.  The binding validators report, for each entry of a binding list that is no key of the
  global \<open>sources\<close> (\<open>executors\<close>) map, one error tagged \<open>invalid_binding\<close>, and none
  for an entry that is a key: the errors for a name are as many as the entries of the list
  with that name.  The loops do not stop at the first offending name.  Over a whole validated
  configuration, the errors tagged \<open>invalid_binding\<close> among the criticals are exactly those
  of the binding lists met, list by list and entry by entry; none is among the warnings.
\<close>

theorem C5_invalid_bindings_reported_as_criticals:
  "validateSourceBindings ns (Config.Sources conf) bindings
     = invalidSources_spec ns (Config.Sources conf) bindings
   \<and> validateExecutorBindings ns (Config.Executors conf) bindings
     = invalidExecutors_spec ns (Config.Executors conf) bindings
   \<and> length (filter (\<lambda>e. Field e = name)
         (validateSourceBindings ns (Config.Sources conf) bindings))
     = (if name \<in> dom (Config.Sources conf) then 0 else count_list bindings name)
   \<and> length (filter (\<lambda>e. Field e = name)
         (validateExecutorBindings ns (Config.Executors conf) bindings))
     = (if name \<in> dom (Config.Executors conf) then 0 else count_list bindings name)
   \<and> filter (\<lambda>e. Tag e = invalidBindingTag)
         (criticalErrors (validate_Struct (TopConfig conf) allNs visited))
     = invalidBindings_spec conf visited
   \<and> filter (\<lambda>e. Tag e = invalidBindingTag)
         (warningErrors (validate_Struct (TopConfig conf) allNs visited)) = []
   \<and> Criticals (ValidateStruct tr allNs (TopConfig conf) visited)
     = map (message tr) (criticalErrors (validate_Struct (TopConfig conf) allNs visited))"
proof -
  have crit: "filter (\<lambda>e. Tag e = invalidBindingTag)
         (criticalErrors (validate_Struct (TopConfig conf) allNs visited))
     = invalidBindings_spec conf visited"
  proof -
    have "filter (\<lambda>e. Tag e = invalidBindingTag) (criticalErrors errs)
            = filter (\<lambda>e. Tag e = invalidBindingTag) errs" for errs
      by (induction errs) (auto simp add: criticalErrors_eq)
    then show ?thesis
      by (simp add: validate_Struct_invalid_binding)
  qed
  have warn: "filter (\<lambda>e. Tag e = invalidBindingTag)
         (warningErrors (validate_Struct (TopConfig conf) allNs visited)) = []"
    by (auto simp add: warningErrors_eq filter_empty_conv)
  show ?thesis
    by (simp only: validateSourceBindings_spec validateExecutorBindings_spec
        count_invalidSources count_invalidExecutors crit warn ValidateStruct_eq
        ValidateResult.simps simp_thms)
qed

theorem C5_witness:
  "filter (\<lambda>e. Tag e = invalidBindingTag)
      (criticalErrors (validate_Struct (TopConfig conf0) ''.*'' visited0))
     = [ReportError ''Config.Communications[default].SocketSlack.Channels[a].Bindings.''
          ''typo'' ''typo'' invalidBindingTag ''Config.Sources'',
        ReportError ''Config.Communications[default].SocketSlack.Channels[a].Bindings.''
          ''gone'' ''gone'' invalidBindingTag ''Config.Sources'',
        ReportError ''Config.Communications[default].SocketSlack.Channels[a].Bindings.''
          ''helm'' ''helm'' invalidBindingTag ''Config.Executors'',
        ReportError ''Config.Communications[default].Elasticsearch.Bindings.''
          ''typo'' ''typo'' invalidBindingTag ''Config.Sources'']
   \<and> length (Criticals (ValidateStruct requiredTranslation ''.*'' (TopConfig conf0) visited0)) = 4"
proof -
  note inst = C5_invalid_bindings_reported_as_criticals
      [of "[]" conf0 "[]" "[]" "''.*''" visited0 requiredTranslation]
  have spec: "invalidBindings_spec conf0 visited0
     = [ReportError ''Config.Communications[default].SocketSlack.Channels[a].Bindings.''
          ''typo'' ''typo'' invalidBindingTag ''Config.Sources'',
        ReportError ''Config.Communications[default].SocketSlack.Channels[a].Bindings.''
          ''gone'' ''gone'' invalidBindingTag ''Config.Sources'',
        ReportError ''Config.Communications[default].SocketSlack.Channels[a].Bindings.''
          ''helm'' ''helm'' invalidBindingTag ''Config.Executors'',
        ReportError ''Config.Communications[default].Elasticsearch.Bindings.''
          ''typo'' ''typo'' invalidBindingTag ''Config.Sources'']"
    by (simp add: conf0_def visited0_def invalidSources_spec_def invalidExecutors_spec_def)
  have n: "length (criticalErrors (validate_Struct (TopConfig conf0) ''.*'' visited0)) = 4"
    by (simp add: validate_Struct_def criticalErrors_eq conf0_def visited0_def
        namespacesStructValidator_eq botBindingsStructValidator_def sinkBindingsStructValidator_def)
  from inst have a: "filter (\<lambda>e. Tag e = invalidBindingTag)
      (criticalErrors (validate_Struct (TopConfig conf0) ''.*'' visited0))
      = invalidBindings_spec conf0 visited0"
    by blast
  from inst have b: "Criticals (ValidateStruct requiredTranslation ''.*'' (TopConfig conf0) visited0)
     = map (message requiredTranslation)
         (criticalErrors (validate_Struct (TopConfig conf0) ''.*'' visited0))"
    by blast
  show ?thesis
    unfolding a b spec using n by simp
qed

text \<open>
  C6.  For every namespace include list: the validator reports exactly one error tagged
  \<open>ns-include-regex\<close> if the list has at least two entries and contains the all-namespaces
  indicator, and none otherwise (so none for a list of length below 2, a single
  all-namespaces entry included, and none for a list without the indicator).  Over a whole
  validated value these errors are exactly the warnings of the result, and none of them is
  among the criticals.
\<close>

theorem C6_ns_include_warning:
  "namespacesStructValidator allNs ns nsv =
     (if 2 \<le> length (Include nsv) \<and> allNs \<in> set (Include nsv)
      then [ReportError ns ''Include'' ''Include'' nsIncludeTag []] else [])
   \<and> warningErrors (validate_Struct topVal allNs visited) = nsIncludeWarnings_spec allNs visited
   \<and> filter (\<lambda>e. Tag e = nsIncludeTag) (criticalErrors (validate_Struct topVal allNs visited)) = []
   \<and> ValidateResult.Warnings (ValidateStruct tr allNs topVal visited)
     = map (message tr) (nsIncludeWarnings_spec allNs visited)"
proof -
  have warn: "warningErrors (validate_Struct topVal allNs visited)
                = nsIncludeWarnings_spec allNs visited"
    by (simp add: warningErrors_eq validate_Struct_ns_include)
  have crit: "filter (\<lambda>e. Tag e = nsIncludeTag)
                (criticalErrors (validate_Struct topVal allNs visited)) = []"
    by (auto simp add: criticalErrors_eq filter_empty_conv)
  show ?thesis
    by (simp only: namespacesStructValidator_eq warn crit ValidateStruct_eq
        ValidateResult.simps simp_thms)
qed

theorem C6_witness:
  "namespacesStructValidator ''.*'' ''Config.Sources[a].Kubernetes.Namespaces.''
      \<lparr>Include = [''.*'', ''kube-system'']\<rparr>
     = [ReportError ''Config.Sources[a].Kubernetes.Namespaces.'' ''Include'' ''Include''
          nsIncludeTag []]
   \<and> namespacesStructValidator ''.*'' ''Config.Sources[a].Kubernetes.Namespaces.''
      \<lparr>Include = [''.*'']\<rparr> = []
   \<and> namespacesStructValidator ''.*'' ''Config.Sources[a].Kubernetes.Namespaces.''
      \<lparr>Include = [''default'', ''kube-system'']\<rparr> = []
   \<and> length (ValidateResult.Warnings
         (ValidateStruct requiredTranslation ''.*'' (TopConfig conf0) visited0)) = 1"
proof -
  have a: "namespacesStructValidator ''.*'' ''Config.Sources[a].Kubernetes.Namespaces.''
      \<lparr>Include = [''.*'', ''kube-system'']\<rparr>
     = [ReportError ''Config.Sources[a].Kubernetes.Namespaces.'' ''Include'' ''Include''
          nsIncludeTag []]"
    using C6_ns_include_warning [of "''.*''" "''Config.Sources[a].Kubernetes.Namespaces.''"
        "\<lparr>Include = [''.*'', ''kube-system'']\<rparr>" "TopConfig conf0" visited0 requiredTranslation]
    by simp
  have b: "namespacesStructValidator ''.*'' ''Config.Sources[a].Kubernetes.Namespaces.''
      \<lparr>Include = [''.*'']\<rparr> = []"
    using C6_ns_include_warning [of "''.*''" "''Config.Sources[a].Kubernetes.Namespaces.''"
        "\<lparr>Include = [''.*'']\<rparr>" "TopConfig conf0" visited0 requiredTranslation]
    by simp
  have c: "namespacesStructValidator ''.*'' ''Config.Sources[a].Kubernetes.Namespaces.''
      \<lparr>Include = [''default'', ''kube-system'']\<rparr> = []"
    using C6_ns_include_warning [of "''.*''" "''Config.Sources[a].Kubernetes.Namespaces.''"
        "\<lparr>Include = [''default'', ''kube-system'']\<rparr>" "TopConfig conf0" visited0 requiredTranslation]
    by simp
  have d: "length (ValidateResult.Warnings
         (ValidateStruct requiredTranslation ''.*'' (TopConfig conf0) visited0)) = 1"
    using C6_ns_include_warning [of "''.*''" "[]" "\<lparr>Include = []\<rparr>" "TopConfig conf0" visited0
        requiredTranslation]
    by (simp add: visited0_def)
  from a b c d show ?thesis by blast
qed

text \<open>
  Every reported error is routed to exactly one of the two lists of the result.
\<close>

lemma routing_partition:
  "set (criticalErrors errs) \<inter> set (warningErrors errs) = {}
   \<and> set (criticalErrors errs) \<union> set (warningErrors errs) = set errs
   \<and> length (Criticals (ValidateStruct tr allNs topVal visited))
       + length (ValidateResult.Warnings (ValidateStruct tr allNs topVal visited))
     = length (validate_Struct topVal allNs visited)"
proof -
  have "length (criticalErrors es) + length (warningErrors es) = length es" for es
    by (induction es) (simp_all add: criticalErrors_def warningErrors_def)
  then show ?thesis
    by (auto simp add: ValidateStruct_eq criticalErrors_def warningErrors_def)
qed

text \<open>
  C7.  An enabled \<open>SocketSlack\<close> whose bot token is missing is one violating field
  condition, and the validator reports two errors for it: \<open>required\<close> and
  \<open>invalid_slack_token\<close>, both for \<open>BotToken\<close>, both routed to the criticals.  The
  validator of \<open>Slack\<close> reports one error, \<open>required\<close>, for a missing token.
\<close>

theorem C7_socketSlack_missing_token_reported_twice:
  "socketSlackStructTokenValidator ''Config.Communications[default].SocketSlack.''
      socketSlackMissingBotToken
     = [ReportError ''Config.Communications[default].SocketSlack.'' ''BotToken'' ''BotToken''
          ''required'' [],
        ReportError ''Config.Communications[default].SocketSlack.'' ''BotToken'' ''BotToken''
          ''invalid_slack_token''
          ''must have the xoxb- prefix. Learn more at https://botkube.io/docs/installation/socketslack/#obtain-bot-token'']
   \<and> length (Criticals (ValidateStruct requiredTranslation ''.*'' (TopConfig conf0)
         [(''Config.Communications[default].SocketSlack.'',
           CurSocketSlack socketSlackMissingBotToken)])) = 2
   \<and> slackStructTokenValidator ''Config.Communications[default].Slack.'' slackMissingToken
     = [ReportError ''Config.Communications[default].Slack.'' ''Token'' ''Token'' ''required'' []]"
proof -
  have a: "socketSlackStructTokenValidator ''Config.Communications[default].SocketSlack.''
      socketSlackMissingBotToken
     = [ReportError ''Config.Communications[default].SocketSlack.'' ''BotToken'' ''BotToken''
          ''required'' [],
        ReportError ''Config.Communications[default].SocketSlack.'' ''BotToken'' ''BotToken''
          ''invalid_slack_token''
          ''must have the xoxb- prefix. Learn more at https://botkube.io/docs/installation/socketslack/#obtain-bot-token'']"
    by (simp add: socketSlackStructTokenValidator_def socketSlackMissingBotToken_def HasPrefix_def
        botTokenPrefix_def appTokenPrefix_def)
  have b: "length (Criticals (ValidateStruct requiredTranslation ''.*'' (TopConfig conf0)
         [(''Config.Communications[default].SocketSlack.'',
           CurSocketSlack socketSlackMissingBotToken)])) = 2"
    by (simp add: ValidateStruct_eq validate_Struct_def a criticalErrors_eq)
  have c: "slackStructTokenValidator ''Config.Communications[default].Slack.'' slackMissingToken
     = [ReportError ''Config.Communications[default].Slack.'' ''Token'' ''Token'' ''required'' []]"
    by (simp add: slackStructTokenValidator_def slackMissingToken_def)
  from a b c show ?thesis by blast
qed


end
